theory Spec2Isabelle
  imports Complex_Main
begin

section \<open>Python values and the primitives the module uses\<close>

text \<open>
  The attributes of a \<open>FilterSweeper\<close> and of the extractor it is seeded from are
  dynamically typed. The values that can stand there are modelled by \<open>pyval\<close>: \<open>None\<close>,
  unbounded integers, floats (idealised as reals), strings, tuples and lists.
\<close>

datatype pyval =
    PyNone
  | PyInt int
  | PyFloat real
  | PyStr string
  | PyTuple "pyval list"
  | PyList "pyval list"

text \<open>The exceptions the modelled code can raise. \<open>LibError\<close> stands for an exception
  raised inside a collaborator (the filters of \<open>segfunctions\<close>, the extractor's image
  source).\<close>

datatype error =
    AttributeError
  | TypeError
  | IndexError
  | ValueError
  | UnboundLocalError
  | LibError string

text \<open>\<open>len(v)\<close>: defined on strings, tuples and lists; a \<open>TypeError\<close> otherwise.\<close>

fun py_len :: "pyval \<Rightarrow> error + int" where
  "py_len (PyStr s) = Inr (int (length s))"
| "py_len (PyTuple xs) = Inr (int (length xs))"
| "py_len (PyList xs) = Inr (int (length xs))"
| "py_len _ = Inl TypeError"

text \<open>Indexing a sequence of length \<open>n\<close> with the integer \<open>i\<close>: a negative index counts
  from the end, anything outside \<open>[-n, n-1]\<close> raises \<open>IndexError\<close>.\<close>

definition seq_index :: "'a list \<Rightarrow> int \<Rightarrow> error + 'a" where
  "seq_index xs i =
     (if 0 \<le> i \<and> i < int (length xs) then Inr (xs ! nat i)
      else if i < 0 \<and> - int (length xs) \<le> i then Inr (xs ! nat (int (length xs) + i))
      else Inl IndexError)"

text \<open>\<open>v[k]\<close>: the subscript must be an integer and \<open>v\<close> a string, tuple or list.\<close>

fun py_getitem :: "pyval \<Rightarrow> pyval \<Rightarrow> error + pyval" where
  "py_getitem (PyTuple xs) (PyInt i) = seq_index xs i"
| "py_getitem (PyList xs) (PyInt i) = seq_index xs i"
| "py_getitem (PyStr s) (PyInt i) =
     (case seq_index s i of Inl e \<Rightarrow> Inl e | Inr c \<Rightarrow> Inr (PyStr [c]))"
| "py_getitem _ _ = Inl TypeError"

text \<open>Python's \<open>==\<close> compares an int and a float by value (\<open>3 == 3.0\<close>), and sequences
  element by element. \<open>py_norm\<close> maps every integer to the float of the same value, so
  that \<open>==\<close> is equality of the normal forms.\<close>

fun py_norm :: "pyval \<Rightarrow> pyval" where
  "py_norm (PyInt i) = PyFloat (real_of_int i)"
| "py_norm (PyTuple xs) = PyTuple (map py_norm xs)"
| "py_norm (PyList xs) = PyList (map py_norm xs)"
| "py_norm v = v"

definition py_eq :: "pyval \<Rightarrow> pyval \<Rightarrow> bool" where
  "py_eq a b \<longleftrightarrow> py_norm a = py_norm b"

text \<open>\<open>xs.index(v)\<close>: the position of the first element equal to \<open>v\<close>, or a
  \<open>ValueError\<close>.\<close>

fun list_index :: "pyval list \<Rightarrow> pyval \<Rightarrow> error + int" where
  "list_index [] v = Inl ValueError"
| "list_index (x # xs) v =
     (if py_eq x v then Inr 0
      else (case list_index xs v of Inl e \<Rightarrow> Inl e | Inr i \<Rightarrow> Inr (i + 1)))"

text \<open>Reading an attribute that may be absent.\<close>

definition getattr :: "'a option \<Rightarrow> error + 'a" where
  "getattr a = (case a of None \<Rightarrow> Inl AttributeError | Some v \<Rightarrow> Inr v)"

section \<open>Volumes and the store of arrays\<close>

text \<open>
  A volume is a 3-D array in ZYX order; intensities are idealised as reals. Arrays are
  mutable objects, and the filters of \<open>segfunctions\<close> may work in place, so arrays live
  in a store: a list of volumes addressed by position. Allocation appends.
\<close>

type_synonym volume = "real list list list"
type_synonym bool_volume = "bool list list list"
type_synonym addr = nat
type_synonym store = "volume list"

text \<open>\<open>copy.deepcopy(a)\<close>, for an array \<open>a\<close> of the store: a fresh array with the
  contents of \<open>a\<close>.\<close>

definition deepcopy :: "store \<Rightarrow> addr \<Rightarrow> store \<times> addr" where
  "deepcopy h a = (h @ [h ! a], length h)"

text \<open>An array function of \<open>segfunctions\<close> (not part of the sources at hand): it gets
  the store, the array it is applied to and its parameter, and returns the store it leaves
  behind with either an exception or the address of its result.\<close>

type_synonym filter_fn = "store \<Rightarrow> addr \<Rightarrow> pyval \<Rightarrow> store \<times> (error + addr)"

section \<open>The FilterSweeper object\<close>

record FilterSweeper =
  stacks :: "addr list"
  width_x_val :: pyval
  width_y_val :: pyval
  width_z_val :: pyval
  sigma_x :: pyval
  sigma_y :: pyval
  sigma_z :: pyval
  median_sizes :: pyval
  median_index :: pyval
  quantile :: pyval
  gaussian :: "pyval option"
  median :: "pyval option"

text \<open>\<open>params.get(key, default)\<close>\<close>

definition dict_get :: "(string \<rightharpoonup> pyval) \<Rightarrow> string \<Rightarrow> pyval \<Rightarrow> pyval" where
  "dict_get d k dflt = (case d k of None \<Rightarrow> dflt | Some v \<Rightarrow> v)"

text \<open>\<open>FilterSweeper.__init__(stacks, params=None)\<close>. The attributes \<open>gaussian\<close> and
  \<open>median\<close> are not set by the constructor.\<close>

definition FilterSweeper_init :: "addr list \<Rightarrow> (string \<rightharpoonup> pyval) option \<Rightarrow> FilterSweeper" where
  "FilterSweeper_init stks params_opt =
     (let params = (case params_opt of None \<Rightarrow> Map.empty | Some d \<Rightarrow> d) in
      \<lparr> stacks = stks,
        width_x_val = dict_get params ''width_x_val'' (PyInt 3),
        width_y_val = dict_get params ''width_y_val'' (PyInt 3),
        width_z_val = dict_get params ''width_z_val'' (PyInt 3),
        sigma_x = dict_get params ''sigma_x'' (PyInt 1),
        sigma_y = dict_get params ''sigma_y'' (PyInt 1),
        sigma_z = dict_get params ''sigma_z'' (PyInt 1),
        median_sizes = dict_get params ''median_sizes'' (PyList [PyInt 1, PyInt 3, PyInt 5]),
        median_index = dict_get params ''median_index'' (PyInt 1),
        quantile = dict_get params ''quantile'' (PyFloat (9 / 10)),
        gaussian = None,
        median = None \<rparr>)"

section \<open>from_extractor\<close>

text \<open>The extractor, as far as \<open>from_extractor\<close> reads it: three attributes that may be
  absent, and the image source \<open>e.im.get_t(t=i)\<close>, which hands out a volume or raises.\<close>

record extractor =
  e_gaussian :: "pyval option"
  e_quantile :: "pyval option"
  e_median :: "pyval option"
  e_im_get_t :: "nat \<Rightarrow> error + volume"

text \<open>The six locals \<open>width_x_val, width_y_val, width_z_val, sigma_x, sigma_y, sigma_z\<close>.\<close>

record gauss_locals =
  l_width_x_val :: pyval
  l_width_y_val :: pyval
  l_width_z_val :: pyval
  l_sigma_x :: pyval
  l_sigma_y :: pyval
  l_sigma_z :: pyval

text \<open>\<open>e.gaussian[k]\<close>\<close>

definition gaussian_at :: "extractor \<Rightarrow> int \<Rightarrow> error + pyval" where
  "gaussian_at e k =
     (case getattr (e_gaussian e) of Inl er \<Rightarrow> Inl er | Inr g \<Rightarrow> py_getitem g (PyInt k))"

text \<open>\<open>len(e.gaussian)\<close>\<close>

definition gaussian_len :: "extractor \<Rightarrow> error + int" where
  "gaussian_len e =
     (case getattr (e_gaussian e) of Inl er \<Rightarrow> Inl er | Inr g \<Rightarrow> py_len g)"

text \<open>Reading the elements at the given positions, in order, stopping at the first
  exception.\<close>

fun gaussian_read :: "extractor \<Rightarrow> int list \<Rightarrow> error + pyval list" where
  "gaussian_read e [] = Inr []"
| "gaussian_read e (k # ks) =
     (case gaussian_at e k of
        Inl er \<Rightarrow> Inl er
      | Inr v \<Rightarrow> (case gaussian_read e ks of Inl er \<Rightarrow> Inl er | Inr vs \<Rightarrow> Inr (v # vs)))"

text \<open>
  The body of the first \<open>try\<close> (lines 66-77). It yields an exception, or the six locals
  when one of the two branches ran, or \<open>None\<close> when the length is neither 4 nor 6: then no
  branch runs, nothing is raised, and the locals stay unbound. An exception in the middle
  of a branch leaves some locals bound, but the handler then rebinds all six or raises,
  so the partial binding is never seen.
\<close>

definition decode_try :: "extractor \<Rightarrow> error + gauss_locals option" where
  "decode_try e =
     (case gaussian_len e of
        Inl er \<Rightarrow> Inl er
      | Inr n \<Rightarrow>
          if n = 4 then
            (case gaussian_read e [0, 2, 1, 3] of
               Inl er \<Rightarrow> Inl er
             | Inr vs \<Rightarrow>
                 Inr (Some \<lparr> l_width_x_val = vs ! 0, l_width_y_val = vs ! 0,
                             l_width_z_val = vs ! 1,
                             l_sigma_x = vs ! 2, l_sigma_y = vs ! 2, l_sigma_z = vs ! 3 \<rparr>))
          else
            (case gaussian_len e of
               Inl er \<Rightarrow> Inl er
             | Inr m \<Rightarrow>
                 if m = 6 then
                   (case gaussian_read e [0, 1, 4, 2, 3, 5] of
                      Inl er \<Rightarrow> Inl er
                    | Inr vs \<Rightarrow>
                        Inr (Some \<lparr> l_width_x_val = vs ! 0, l_width_y_val = vs ! 1,
                                    l_width_z_val = vs ! 2,
                                    l_sigma_x = vs ! 3, l_sigma_y = vs ! 4,
                                    l_sigma_z = vs ! 5 \<rparr>))
                 else Inr None))"

text \<open>The handler of the first \<open>try\<close> (lines 79-84): the widths are 1, the sigmas are read
  from \<open>e.gaussian\<close> again; an exception here propagates.\<close>

definition decode_except :: "extractor \<Rightarrow> error + gauss_locals" where
  "decode_except e =
     (case gaussian_read e [2, 3, 5] of
        Inl er \<Rightarrow> Inl er
      | Inr vs \<Rightarrow>
          Inr \<lparr> l_width_x_val = PyInt 1, l_width_y_val = PyInt 1, l_width_z_val = PyInt 1,
                l_sigma_x = vs ! 0, l_sigma_y = vs ! 1, l_sigma_z = vs ! 2 \<rparr>)"

text \<open>The first \<open>try ... except\<close> as a whole.\<close>

definition decode_gaussian :: "extractor \<Rightarrow> error + gauss_locals option" where
  "decode_gaussian e =
     (case decode_try e of
        Inr r \<Rightarrow> Inr r
      | Inl _ \<Rightarrow> (case decode_except e of Inl er \<Rightarrow> Inl er | Inr l \<Rightarrow> Inr (Some l)))"

text \<open>Lines 85-88: \<open>e.quantile\<close>, or 0.99 when reading it raises.\<close>

definition decode_quantile :: "extractor \<Rightarrow> pyval" where
  "decode_quantile e =
     (case getattr (e_quantile e) of Inl _ \<Rightarrow> PyFloat (99 / 100) | Inr q \<Rightarrow> q)"

text \<open>Lines 89-93: the position of \<open>e.median\<close> in \<open>[1, 3, 5]\<close>, or 1 when that raises.\<close>

definition decode_median_index :: "extractor \<Rightarrow> pyval" where
  "decode_median_index e =
     (case getattr (e_median e) of
        Inl _ \<Rightarrow> PyInt 1
      | Inr m \<Rightarrow>
          (case list_index [PyInt 1, PyInt 3, PyInt 5] m of
             Inl _ \<Rightarrow> PyInt 1
           | Inr i \<Rightarrow> PyInt i))"

text \<open>Lines 96-106: packing the dictionary reads the six locals; an unbound one raises
  \<open>UnboundLocalError\<close>.\<close>

definition pack_params :: "gauss_locals option \<Rightarrow> pyval \<Rightarrow> pyval \<Rightarrow> error + (string \<rightharpoonup> pyval)" where
  "pack_params locals q mi =
     (case locals of
        None \<Rightarrow> Inl UnboundLocalError
      | Some l \<Rightarrow>
          Inr [ ''width_x_val'' \<mapsto> l_width_x_val l,
                ''width_y_val'' \<mapsto> l_width_y_val l,
                ''width_z_val'' \<mapsto> l_width_z_val l,
                ''sigma_x'' \<mapsto> l_sigma_x l,
                ''sigma_y'' \<mapsto> l_sigma_y l,
                ''sigma_z'' \<mapsto> l_sigma_z l,
                ''quantile'' \<mapsto> q,
                ''median_sizes'' \<mapsto> PyList [PyInt 1, PyInt 3, PyInt 5],
                ''median_index'' \<mapsto> mi ])"

text \<open>Lines 109-113: for \<open>i\<close> in \<open>range(timepoints)\<close>, fetch the volume of timepoint \<open>i\<close>
  and append a deep copy of it. \<open>pull_stacks e i k h acc\<close> runs the \<open>k\<close> iterations that
  start at \<open>i\<close>. The array handed out by the image source is placed in the store, and its
  copy after it.\<close>

fun pull_stacks :: "extractor \<Rightarrow> nat \<Rightarrow> nat \<Rightarrow> store \<Rightarrow> addr list \<Rightarrow> store \<times> (error + addr list)" where
  "pull_stacks e i 0 h acc = (h, Inr acc)"
| "pull_stacks e i (Suc k) h acc =
     (case e_im_get_t e i of
        Inl er \<Rightarrow> (h, Inl er)
      | Inr v \<Rightarrow>
          (let im1 = length h;
               (h', im1_unfiltered) = deepcopy (h @ [v]) im1
           in pull_stacks e (Suc i) k h' (acc @ [im1_unfiltered])))"

definition from_extractor :: "extractor \<Rightarrow> nat \<Rightarrow> store \<Rightarrow> store \<times> (error + FilterSweeper)" where
  "from_extractor e timepoints h =
     (case decode_gaussian e of
        Inl er \<Rightarrow> (h, Inl er)
      | Inr locals \<Rightarrow>
          (case pack_params locals (decode_quantile e) (decode_median_index e) of
             Inl er \<Rightarrow> (h, Inl er)
           | Inr params \<Rightarrow>
               (case pull_stacks e 0 timepoints h [] of
                  (h', Inl er) \<Rightarrow> (h', Inl er)
                | (h', Inr stks) \<Rightarrow> (h', Inr (FilterSweeper_init stks (Some params))))))"

section \<open>The thresholding primitives\<close>

text \<open>
  \<open>np.quantile(data, q)\<close> with numpy's default (linear) method, on the flattened data
  and in exact arithmetic: \<open>q\<close> outside \<open>[0, 1]\<close> raises \<open>ValueError\<close>; otherwise the
  sorted data is read at the virtual index \<open>q * (n - 1)\<close>, interpolating linearly between
  the two neighbouring elements. On empty data numpy's behaviour depends on its version;
  the model raises \<open>IndexError\<close>, and no theorem below depends on that choice.
\<close>

definition quantile_linear :: "real list \<Rightarrow> real \<Rightarrow> real" where
  "quantile_linear xs q =
     (let n = length xs;
          v = q * real (n - 1);
          lo = nat \<lfloor>v\<rfloor>;
          hi = min (lo + 1) (n - 1);
          g = v - real lo
      in xs ! lo + (xs ! hi - xs ! lo) * g)"

fun py_float :: "pyval \<Rightarrow> error + real" where
  "py_float (PyFloat r) = Inr r"
| "py_float (PyInt i) = Inr (real_of_int i)"
| "py_float _ = Inl TypeError"

definition np_quantile :: "real list \<Rightarrow> pyval \<Rightarrow> error + real" where
  "np_quantile dat qv =
     (case py_float qv of
        Inl er \<Rightarrow> Inl er
      | Inr q \<Rightarrow>
          if q < 0 \<or> 1 < q then Inl ValueError
          else if dat = [] then Inl IndexError
          else Inr (quantile_linear (sort dat) q))"

text \<open>\<open>filtered > c\<close>: the boolean array of the same shape.\<close>

definition gt_scalar :: "volume \<Rightarrow> real \<Rightarrow> bool_volume" where
  "gt_scalar v c = map (map (map (\<lambda>x. c < x))) v"

section \<open>The callback filter_and_threshold\<close>

text \<open>A napari image layer, as far as the callback reads it: its (flattened) data. The
  argument \<open>layer\<close> is \<open>None\<close> when no layer is selected; a layer object is truthy.\<close>

record Image =
  data :: "real list"

text \<open>The arguments the controls pass besides the layer, typed as annotated (lines
  132-141): the widths arrive as half-widths.\<close>

record call_args =
  arg_quantile :: real
  arg_median_index :: int
  arg_width_x :: int
  arg_width_y :: int
  arg_width_z :: int
  arg_sigma_x :: real
  arg_sigma_y :: real
  arg_sigma_z :: real

text \<open>Lines 146-153: the eight assignments to \<open>self\<close>.\<close>

definition store_args :: "FilterSweeper \<Rightarrow> call_args \<Rightarrow> FilterSweeper" where
  "store_args s a =
     s\<lparr> quantile := PyFloat (arg_quantile a),
        median_index := PyInt (arg_median_index a),
        width_x_val := PyInt (2 * arg_width_x a + 1),
        width_y_val := PyInt (2 * arg_width_y a + 1),
        width_z_val := PyInt (2 * arg_width_z a + 1),
        sigma_x := PyFloat (arg_sigma_x a),
        sigma_y := PyFloat (arg_sigma_y a),
        sigma_z := PyFloat (arg_sigma_z a) \<rparr>"

text \<open>The tuple handed to \<open>gaussian3d\<close> (line 155), also the \<open>gaussian\<close> entry of the
  final record (line 168).\<close>

definition gaussian_tuple :: "FilterSweeper \<Rightarrow> pyval" where
  "gaussian_tuple s =
     PyTuple [width_x_val s, width_y_val s, sigma_x s, sigma_y s, width_z_val s, sigma_z s]"

text \<open>\<open>self.median_sizes[self.median_index]\<close> (lines 156 and 168).\<close>

definition selected_median :: "FilterSweeper \<Rightarrow> error + pyval" where
  "selected_median s = py_getitem (median_sizes s) (median_index s)"

text \<open>
  One pass of the loop body (lines 155-157) for the array \<open>stack\<close>. \<open>gaussian3d\<close> and
  \<open>medFilter2d\<close> are the filters of \<open>segfunctions\<close>, taken as parameters. The order of
  evaluation is Python's: the copy, the blur, the subscript of \<open>median_sizes\<close>, the median
  filter, the quantile, the comparison.
\<close>

definition loop_body ::
  "filter_fn \<Rightarrow> filter_fn \<Rightarrow> FilterSweeper \<Rightarrow> Image \<Rightarrow> addr \<Rightarrow> store \<Rightarrow> store \<times> (error + bool_volume)" where
  "loop_body gaussian3d medFilter2d s layer stack h =
     (let (h1, c) = deepcopy h stack in
      case gaussian3d h1 c (gaussian_tuple s) of
        (h2, Inl er) \<Rightarrow> (h2, Inl er)
      | (h2, Inr blurred) \<Rightarrow>
          (case selected_median s of
             Inl er \<Rightarrow> (h2, Inl er)
           | Inr msize \<Rightarrow>
               (case medFilter2d h2 blurred msize of
                  (h3, Inl er) \<Rightarrow> (h3, Inl er)
                | (h3, Inr filtered) \<Rightarrow>
                    (case np_quantile (data layer) (quantile s) of
                       Inl er \<Rightarrow> (h3, Inl er)
                     | Inr cutoff \<Rightarrow> (h3, Inr (gt_scalar (h3 ! filtered) cutoff))))))"

text \<open>The loop over \<open>self.stacks\<close> (lines 154-158), appending to
  \<open>filtered_and_thresholded\<close>.\<close>

fun stack_loop ::
  "filter_fn \<Rightarrow> filter_fn \<Rightarrow> FilterSweeper \<Rightarrow> Image \<Rightarrow> addr list \<Rightarrow> store \<Rightarrow> bool_volume list
     \<Rightarrow> store \<times> (error + bool_volume list)" where
  "stack_loop G M s layer [] h acc = (h, Inr acc)"
| "stack_loop G M s layer (stack # rest) h acc =
     (case loop_body G M s layer stack h of
        (h', Inl er) \<Rightarrow> (h', Inl er)
      | (h', Inr thresholded) \<Rightarrow> stack_loop G M s layer rest h' (acc @ [thresholded]))"

text \<open>
  The callback (lines 141-159). It returns the object as it leaves it, the store, and
  either the exception that ended it or its return value: \<open>None\<close> when the layer is falsy,
  the stacked boolean volumes otherwise. An exception does not undo the assignments made
  before it.
\<close>

definition filter_and_threshold ::
  "filter_fn \<Rightarrow> filter_fn \<Rightarrow> FilterSweeper \<Rightarrow> store \<Rightarrow> Image option \<Rightarrow> call_args
     \<Rightarrow> FilterSweeper \<times> store \<times> (error + bool_volume list option)" where
  "filter_and_threshold G M s h layer a =
     (case layer of
        None \<Rightarrow> (s, h, Inr None)
      | Some l \<Rightarrow>
          (let s' = store_args s a in
           case stack_loop G M s' l (stacks s') h [] of
             (h', Inl er) \<Rightarrow> (s', h', Inl er)
           | (h', Inr imgs) \<Rightarrow> (s', h', Inr (Some imgs))))"

section \<open>The session: sweep_parameters\<close>

text \<open>
  While the window is open, every change of a control calls the callback; an exception
  raised by a call is reported by the viewer and the session goes on. The sequence of
  calls of a session is a list of events.
\<close>

type_synonym event = "Image option \<times> call_args"

fun run_events ::
  "filter_fn \<Rightarrow> filter_fn \<Rightarrow> FilterSweeper \<Rightarrow> store \<Rightarrow> event list \<Rightarrow> FilterSweeper \<times> store" where
  "run_events G M s h [] = (s, h)"
| "run_events G M s h ((layer, a) # evs) =
     (case filter_and_threshold G M s h layer a of
        (s', h', _) \<Rightarrow> run_events G M s' h' evs)"

text \<open>What a call of \<open>sweep_parameters\<close> that ends normally hands back: the value it
  returns and the dictionary it prints.\<close>

record sweep_outcome =
  returned :: pyval
  printed :: "(string \<times> pyval) list"

text \<open>
  \<open>sweep_parameters\<close> (lines 117-170): the session, then lines 168-170. The dictionary
  \<open>final_params\<close> is built, its \<open>gaussian\<close> and \<open>median\<close> entries are stored in the
  object, and it is printed. The function has no \<open>return\<close> statement, so it returns
  \<open>None\<close>.
\<close>

definition sweep_parameters ::
  "filter_fn \<Rightarrow> filter_fn \<Rightarrow> FilterSweeper \<Rightarrow> store \<Rightarrow> event list
     \<Rightarrow> FilterSweeper \<times> store \<times> (error + sweep_outcome)" where
  "sweep_parameters G M s h evs =
     (case run_events G M s h evs of
        (s1, h1) \<Rightarrow>
          (case selected_median s1 of
             Inl er \<Rightarrow> (s1, h1, Inl er)
           | Inr m \<Rightarrow>
               (let final_params =
                      [(''gaussian'', gaussian_tuple s1), (''median'', m),
                       (''quantile'', quantile s1)];
                    s2 = s1\<lparr> gaussian := Some (gaussian_tuple s1), median := Some m \<rparr>
                in (s2, h1, Inr \<lparr> returned = PyNone, printed = final_params \<rparr>))))"

section \<open>Notions used to state the properties\<close>


text \<open>The voxel at \<open>(z, y, x)\<close> exists in the mask and is \<open>True\<close>.\<close>

definition voxel_at :: "bool_volume \<Rightarrow> nat \<Rightarrow> nat \<Rightarrow> nat \<Rightarrow> bool" where
  "voxel_at m z y x \<longleftrightarrow>
     z < length m \<and> y < length (m ! z) \<and> x < length (m ! z ! y) \<and> m ! z ! y ! x"



text \<open>
  What the claims about the loaded volumes need of a filter of \<open>segfunctions\<close>: applied
  to an array of the store, it may change that array and allocate new ones, it leaves every
  other array as it was, and the array it returns is its argument or a new one.
\<close>

definition frame_ok :: "filter_fn \<Rightarrow> bool" where
  "frame_ok F \<longleftrightarrow>
     (\<forall>h a p. a < length h \<longrightarrow>
        (case F h a p of
           (h', r) \<Rightarrow>
             length h \<le> length h'
             \<and> (\<forall>b<length h. b \<noteq> a \<longrightarrow> h' ! b = h ! b)
             \<and> (case r of Inl _ \<Rightarrow> True
                 | Inr a' \<Rightarrow> a' < length h' \<and> (a' = a \<or> length h \<le> a'))))"

text \<open>The blur and the median filter of one pass of the loop (lines 155-156), without the
  threshold: the store they leave and the median-filtered volume.\<close>

definition filter_body ::
  "filter_fn \<Rightarrow> filter_fn \<Rightarrow> FilterSweeper \<Rightarrow> addr \<Rightarrow> store \<Rightarrow> store \<times> (error + volume)" where
  "filter_body gaussian3d medFilter2d s stack h =
     (let (h1, c) = deepcopy h stack in
      case gaussian3d h1 c (gaussian_tuple s) of
        (h2, Inl er) \<Rightarrow> (h2, Inl er)
      | (h2, Inr blurred) \<Rightarrow>
          (case selected_median s of
             Inl er \<Rightarrow> (h2, Inl er)
           | Inr msize \<Rightarrow>
               (case medFilter2d h2 blurred msize of
                  (h3, Inl er) \<Rightarrow> (h3, Inl er)
                | (h3, Inr filtered) \<Rightarrow> (h3, Inr (h3 ! filtered)))))"

fun filter_loop ::
  "filter_fn \<Rightarrow> filter_fn \<Rightarrow> FilterSweeper \<Rightarrow> addr list \<Rightarrow> store \<Rightarrow> volume list
     \<Rightarrow> store \<times> (error + volume list)" where
  "filter_loop G M s [] h acc = (h, Inr acc)"
| "filter_loop G M s (stack # rest) h acc =
     (case filter_body G M s stack h of
        (h', Inl er) \<Rightarrow> (h', Inl er)
      | (h', Inr filtered) \<Rightarrow> filter_loop G M s rest h' (acc @ [filtered]))"

section \<open>Concrete inputs\<close>

text \<open>
  Stand-ins for the two filters, used only to run the model on concrete inputs: the first
  works in place on the array it is given (it doubles every voxel), the second leaves its
  argument alone and returns a new array.
\<close>

definition example_gaussian3d :: filter_fn where
  "example_gaussian3d h a p = (h[a := map (map (map (\<lambda>x. 2 * x))) (h ! a)], Inr a)"

definition example_medFilter2d :: filter_fn where
  "example_medFilter2d h a p = (h @ [h ! a], Inr (length h))"

definition example_volume :: volume where
  "example_volume = [[[1, 2], [3, 4]]]"

definition example_store :: store where
  "example_store = [example_volume]"

definition example_layer :: Image where
  "example_layer = \<lparr> data = [1, 2, 3, 4] \<rparr>"

definition example_args :: call_args where
  "example_args =
     \<lparr> arg_quantile = 1 / 2, arg_median_index = 1, arg_width_x = 2, arg_width_y = 0,
       arg_width_z = 1, arg_sigma_x = 1, arg_sigma_y = 2, arg_sigma_z = 3 / 2 \<rparr>"

text \<open>A session with the default parameters and one loaded volume.\<close>

definition example_sweeper :: FilterSweeper where
  "example_sweeper = FilterSweeper_init [0] None"

definition example_extractor4 :: extractor where
  "example_extractor4 =
     \<lparr> e_gaussian = Some (PyTuple [PyInt 3, PyFloat (3 / 2), PyInt 5, PyFloat 2]),
       e_quantile = Some (PyFloat (9 / 10)), e_median = Some (PyInt 3),
       e_im_get_t = (\<lambda>i. Inr example_volume) \<rparr>"

definition example_extractor5 :: extractor where
  "example_extractor5 =
     \<lparr> e_gaussian = Some (PyTuple [PyInt 3, PyFloat (3 / 2), PyInt 5, PyFloat 2, PyInt 7]),
       e_quantile = Some (PyFloat (9 / 10)), e_median = Some (PyInt 3),
       e_im_get_t = (\<lambda>i. Inr example_volume) \<rparr>"

definition example_extractor6 :: extractor where
  "example_extractor6 =
     \<lparr> e_gaussian =
         Some (PyTuple [PyInt 3, PyInt 5, PyFloat 1, PyFloat (3 / 2), PyInt 7, PyFloat 2]),
       e_quantile = None, e_median = None,
       e_im_get_t = (\<lambda>i. Inr example_volume) \<rparr>"

text \<open>A session of two parameter changes.\<close>

definition example_events :: "event list" where
  "example_events =
     [(Some example_layer, example_args),
      (Some example_layer, example_args\<lparr> arg_quantile := 9 / 10, arg_width_x := 3 \<rparr>)]"

lemmas example_defs = example_gaussian3d_def example_medFilter2d_def example_store_def
  example_volume_def example_layer_def example_args_def example_sweeper_def
  FilterSweeper_init_def dict_get_def

lemmas callback_defs = filter_and_threshold_def store_args_def loop_body_def deepcopy_def
  gaussian_tuple_def selected_median_def seq_index_def np_quantile_def quantile_linear_def
  gt_scalar_def

section \<open>The callback on a falsy layer\<close>

text \<open>
  Claim C10. When the \<open>layer\<close> argument is falsy, the callback does not recompute: the
  object (every parameter field of it) and the store are as before, and the value
  returned is \<open>None\<close>.
\<close>

theorem falsy_layer_noop:
  "filter_and_threshold G M s h None a = (s, h, Inr None)"
  by (simp add: filter_and_threshold_def)

section \<open>Width normalisation\<close>

lemma fst_filter_and_threshold:
  "fst (filter_and_threshold G M s h (Some l) a) = store_args s a"
  by (simp add: filter_and_threshold_def Let_def split: prod.splits sum.splits)



section \<open>Selecting the median size\<close>

text \<open>
  Claim C3, as the code has it. With the candidate list \<open>[1, 3, 5]\<close>, the indices 0, 1, 2
  select the sizes 1, 3, 5; the indices \<open>-3, -2, -1\<close> count from the end and select
  1, 3, 5 as well; every other integer index raises \<open>IndexError\<close>.
\<close>

theorem median_selection:
  assumes "median_sizes s = PyList [PyInt 1, PyInt 3, PyInt 5]" and "median_index s = PyInt i"
  shows "selected_median s =
          (if i = 0 \<or> i = - 3 then Inr (PyInt 1)
           else if i = 1 \<or> i = - 2 then Inr (PyInt 3)
           else if i = 2 \<or> i = - 1 then Inr (PyInt 5)
           else Inl IndexError)"
proof -
  consider "i < - 3" | "i = - 3" | "i = - 2" | "i = - 1" | "i = 0" | "i = 1" | "i = 2" | "3 \<le> i"
    by linarith
  then show ?thesis
    using assms by cases (simp_all add: selected_median_def seq_index_def)
qed

theorem median_selection_witness:
  "selected_median (example_sweeper\<lparr>median_index := PyInt 3\<rparr>) = Inl IndexError
   \<and> selected_median (example_sweeper\<lparr>median_index := PyInt 2\<rparr>) = Inr (PyInt 5)"
  using median_selection [of "example_sweeper\<lparr>median_index := PyInt 3\<rparr>" 3]
        median_selection [of "example_sweeper\<lparr>median_index := PyInt 2\<rparr>" 2]
  by (simp add: example_defs)

text \<open>The index \<open>-1\<close> lies outside \<open>[0, 2]\<close>, and the selection succeeds with size 5.\<close>

theorem median_selection_counterexample:
  "selected_median (example_sweeper\<lparr>median_index := PyInt (- 1)\<rparr>) = Inr (PyInt 5)"
  by (simp add: example_defs selected_median_def seq_index_def)

section \<open>The end of a session\<close>

text \<open>Whatever the session was, a call that ends normally returns \<open>None\<close>; the
  dictionary it prints holds the parameters stored last.\<close>

lemma sweep_parameters_returned:
  "sweep_parameters G M s h evs = (s', h', Inr out) \<Longrightarrow> returned out = PyNone"
  by (auto simp: sweep_parameters_def Let_def split: prod.splits sum.splits)

lemma sweep_parameters_printed:
  assumes "sweep_parameters G M s h evs = (s', h', Inr out)"
  shows "\<exists>m. selected_median (fst (run_events G M s h evs)) = Inr m
           \<and> printed out =
               [(''gaussian'', gaussian_tuple (fst (run_events G M s h evs))), (''median'', m),
                (''quantile'', quantile (fst (run_events G M s h evs)))]
           \<and> gaussian s' = Some (gaussian_tuple (fst (run_events G M s h evs)))
           \<and> median s' = Some m
           \<and> quantile s' = quantile (fst (run_events G M s h evs))"
  using assms
  by (auto simp: sweep_parameters_def Let_def split: prod.splits sum.splits)

text \<open>
  Claim C1. After a session with one parameter change, \<open>sweep_parameters\<close> builds the
  record from the stored parameters, stores its \<open>gaussian\<close> and \<open>median\<close> entries in the
  object and prints it, but the value it returns is \<open>None\<close>, not the record.
\<close>

theorem sweep_parameters_returns_None:
  "sweep_parameters example_gaussian3d example_medFilter2d example_sweeper example_store
     [(Some example_layer, example_args)] =
   (example_sweeper\<lparr> quantile := PyFloat (1 / 2), median_index := PyInt 1,
        width_x_val := PyInt 5, width_y_val := PyInt 1, width_z_val := PyInt 3,
        sigma_x := PyFloat 1, sigma_y := PyFloat 2, sigma_z := PyFloat (3 / 2),
        gaussian := Some (PyTuple [PyInt 5, PyInt 1, PyFloat 1, PyFloat 2, PyInt 3, PyFloat (3 / 2)]),
        median := Some (PyInt 3) \<rparr>,
    [[[[1, 2], [3, 4]]], [[[2, 4], [6, 8]]], [[[2, 4], [6, 8]]]],
    Inr \<lparr> returned = PyNone,
          printed =
            [(''gaussian'',
              PyTuple [PyInt 5, PyInt 1, PyFloat 1, PyFloat 2, PyInt 3, PyFloat (3 / 2)]),
             (''median'', PyInt 3), (''quantile'', PyFloat (1 / 2))] \<rparr>)"
  by (simp add: sweep_parameters_def example_defs callback_defs)

section \<open>Seeding from an extractor\<close>

lemma pull_stacks_returns:
  "(\<And>j. j < k \<Longrightarrow> \<exists>v. e_im_get_t e (i + j) = Inr v)
     \<Longrightarrow> \<exists>h' stks. pull_stacks e i k h acc = (h', Inr stks)"
proof (induction k arbitrary: i h acc)
  case 0
  then show ?case by simp
next
  case (Suc k)
  from Suc.prems [of 0] obtain v where v: "e_im_get_t e i = Inr v" by auto
  have "\<And>j. j < k \<Longrightarrow> \<exists>v. e_im_get_t e (Suc i + j) = Inr v"
    using Suc.prems [of "Suc _"] by simp
  from Suc.IH [OF this] show ?case
    using v by (simp add: deepcopy_def)
qed

lemma decode_gaussian_4:
  "e_gaussian e = Some (PyTuple [w, sg, wz, sz]) \<Longrightarrow>
   decode_gaussian e = Inr (Some \<lparr> l_width_x_val = w, l_width_y_val = w, l_width_z_val = wz,
      l_sigma_x = sg, l_sigma_y = sg, l_sigma_z = sz \<rparr>)"
  by (simp add: decode_gaussian_def decode_try_def gaussian_len_def gaussian_at_def getattr_def
      seq_index_def)

lemma decode_gaussian_6:
  "e_gaussian e = Some (PyTuple [wx, wy, sx, sy, wz, sz]) \<Longrightarrow>
   decode_gaussian e = Inr (Some \<lparr> l_width_x_val = wx, l_width_y_val = wy, l_width_z_val = wz,
      l_sigma_x = sx, l_sigma_y = sy, l_sigma_z = sz \<rparr>)"
  by (simp add: decode_gaussian_def decode_try_def gaussian_len_def gaussian_at_def getattr_def
      seq_index_def)

lemma from_extractor_decoded:
  assumes "decode_gaussian e = Inr (Some l)"
    and "\<And>i. i < timepoints \<Longrightarrow> \<exists>v. e_im_get_t e i = Inr v"
  shows "\<exists>h' fs. from_extractor e timepoints h = (h', Inr fs)
      \<and> width_x_val fs = l_width_x_val l \<and> width_y_val fs = l_width_y_val l
      \<and> width_z_val fs = l_width_z_val l \<and> sigma_x fs = l_sigma_x l
      \<and> sigma_y fs = l_sigma_y l \<and> sigma_z fs = l_sigma_z l
      \<and> quantile fs = decode_quantile e \<and> median_index fs = decode_median_index e
      \<and> median_sizes fs = PyList [PyInt 1, PyInt 3, PyInt 5]"
proof -
  from pull_stacks_returns [of timepoints e 0 h "[]"] assms(2)
  obtain h' stks where "pull_stacks e 0 timepoints h [] = (h', Inr stks)"
    by auto
  then show ?thesis
    using assms(1)
    by (simp add: from_extractor_def pack_params_def FilterSweeper_init_def dict_get_def)
qed

text \<open>
  Claim C7. When the image source yields the requested timepoints, \<open>from_extractor\<close>
  returns a sweeper, and it decodes a 4-tuple \<open>(w, s, wz, sz)\<close> as
  \<open>width_x = width_y = w\<close>, \<open>sigma_x = sigma_y = s\<close>, \<open>width_z = wz\<close>, \<open>sigma_z = sz\<close>, and
  a 6-tuple \<open>(wx, wy, sx, sy, wz, sz)\<close> position by position.
\<close>

theorem from_extractor_decodes_tuples:
  assumes "\<forall>i<timepoints. \<exists>v. e_im_get_t e i = Inr v"
  shows "(e_gaussian e = Some (PyTuple [w, sg, wz, sz]) \<longrightarrow>
           (\<exists>h' fs. from_extractor e timepoints h = (h', Inr fs)
              \<and> width_x_val fs = w \<and> width_y_val fs = w \<and> sigma_x fs = sg \<and> sigma_y fs = sg
              \<and> width_z_val fs = wz \<and> sigma_z fs = sz))
       \<and> (e_gaussian e = Some (PyTuple [wx, wy, sx, sy, wz, sz]) \<longrightarrow>
           (\<exists>h' fs. from_extractor e timepoints h = (h', Inr fs)
              \<and> width_x_val fs = wx \<and> width_y_val fs = wy \<and> sigma_x fs = sx \<and> sigma_y fs = sy
              \<and> width_z_val fs = wz \<and> sigma_z fs = sz))"
proof (intro conjI impI)
  assume g: "e_gaussian e = Some (PyTuple [w, sg, wz, sz])"
  from from_extractor_decoded [OF decode_gaussian_4 [OF g], of timepoints h] assms
  show "\<exists>h' fs. from_extractor e timepoints h = (h', Inr fs)
              \<and> width_x_val fs = w \<and> width_y_val fs = w \<and> sigma_x fs = sg \<and> sigma_y fs = sg
              \<and> width_z_val fs = wz \<and> sigma_z fs = sz"
    by auto
next
  assume g: "e_gaussian e = Some (PyTuple [wx, wy, sx, sy, wz, sz])"
  from from_extractor_decoded [OF decode_gaussian_6 [OF g], of timepoints h] assms
  show "\<exists>h' fs. from_extractor e timepoints h = (h', Inr fs)
              \<and> width_x_val fs = wx \<and> width_y_val fs = wy \<and> sigma_x fs = sx \<and> sigma_y fs = sy
              \<and> width_z_val fs = wz \<and> sigma_z fs = sz"
    by auto
qed

theorem from_extractor_decodes_tuples_witness:
  "(\<exists>h' fs. from_extractor example_extractor4 1 [] = (h', Inr fs)
      \<and> width_x_val fs = PyInt 3 \<and> width_y_val fs = PyInt 3
      \<and> sigma_x fs = PyFloat (3 / 2) \<and> sigma_y fs = PyFloat (3 / 2)
      \<and> width_z_val fs = PyInt 5 \<and> sigma_z fs = PyFloat 2)
   \<and> (\<exists>h' fs. from_extractor example_extractor6 1 [] = (h', Inr fs)
      \<and> width_x_val fs = PyInt 3 \<and> width_y_val fs = PyInt 5
      \<and> sigma_x fs = PyFloat 1 \<and> sigma_y fs = PyFloat (3 / 2)
      \<and> width_z_val fs = PyInt 7 \<and> sigma_z fs = PyFloat 2)"
proof -
  have t4: "\<forall>i<1. \<exists>v. e_im_get_t example_extractor4 i = Inr v"
    by (simp add: example_extractor4_def)
  have t6: "\<forall>i<1. \<exists>v. e_im_get_t example_extractor6 i = Inr v"
    by (simp add: example_extractor6_def)
  have g4: "e_gaussian example_extractor4 =
      Some (PyTuple [PyInt 3, PyFloat (3 / 2), PyInt 5, PyFloat 2])"
    by (simp add: example_extractor4_def)
  have g6: "e_gaussian example_extractor6 =
      Some (PyTuple [PyInt 3, PyInt 5, PyFloat 1, PyFloat (3 / 2), PyInt 7, PyFloat 2])"
    by (simp add: example_extractor6_def)
  from from_extractor_decodes_tuples [OF t4, THEN conjunct1, rule_format, OF g4]
       from_extractor_decodes_tuples [OF t6, THEN conjunct2, rule_format, OF g6]
  show ?thesis by blast
qed

text \<open>The fall-backs for the quantile and for the median index.\<close>

lemma decode_quantile_fallback:
  "e_quantile e = None \<Longrightarrow> decode_quantile e = PyFloat (99 / 100)"
  by (simp add: decode_quantile_def getattr_def)

lemma decode_median_index_fallback:
  "e_median e = None \<Longrightarrow> decode_median_index e = PyInt 1"
  "e_median e = Some m \<Longrightarrow> list_index [PyInt 1, PyInt 3, PyInt 5] m = Inl er
     \<Longrightarrow> decode_median_index e = PyInt 1"
  by (simp_all add: decode_median_index_def getattr_def)

text \<open>A tuple whose length is neither 4 nor 6 is never handed to the handler of the
  first \<open>try\<close>; a missing attribute is, and the handler raises again.\<close>

lemma from_extractor_other_length:
  assumes "e_gaussian e = Some (PyTuple xs)" and "length xs \<noteq> 4" and "length xs \<noteq> 6"
  shows "from_extractor e timepoints h = (h, Inl UnboundLocalError)"
  using assms
  by (simp add: from_extractor_def decode_gaussian_def decode_try_def gaussian_len_def
      getattr_def pack_params_def)

lemma from_extractor_missing_gaussian:
  assumes "e_gaussian e = None"
  shows "from_extractor e timepoints h = (h, Inl AttributeError)"
  using assms
  by (simp add: from_extractor_def decode_gaussian_def decode_try_def decode_except_def
      gaussian_len_def gaussian_at_def getattr_def)

text \<open>
  Claim C4. A stored tuple of five elements cannot be decoded. Its length is neither 4 nor
  6, so neither branch of the \<open>try\<close> runs and nothing is raised there; the handler with the
  fall-back values is not entered, the six locals stay unbound, and packing the parameters
  raises \<open>UnboundLocalError\<close>, which \<open>from_extractor\<close> propagates.
\<close>

theorem from_extractor_five_tuple_raises:
  "from_extractor example_extractor5 1 [] = ([], Inl UnboundLocalError)"
  by (simp add: from_extractor_def example_extractor5_def decode_gaussian_def decode_try_def
      gaussian_len_def getattr_def pack_params_def)

section \<open>Monotonicity of the threshold in the quantile\<close>








lemma voxel_at_gt_scalar:
  "voxel_at (gt_scalar v c) z y x \<longleftrightarrow>
     z < length v \<and> y < length (v ! z) \<and> x < length (v ! z ! y) \<and> c < v ! z ! y ! x"
  by (auto simp: voxel_at_def gt_scalar_def)




section \<open>The threshold of a recomputation\<close>

lemma loop_body_threshold:
  assumes "loop_body G M s l stack h = (h', Inr t)"
  shows "\<exists>f c. filter_body G M s stack h = (h', Inr f)
           \<and> np_quantile (data l) (quantile s) = Inr c \<and> t = gt_scalar f c"
  using assms
  by (auto simp: loop_body_def filter_body_def Let_def split: prod.splits sum.splits)

lemma stack_loop_threshold:
  assumes c: "np_quantile (data l) (quantile s) = Inr c"
  shows "stack_loop G M s l xs h acc = (h', Inr imgs)
     \<Longrightarrow> \<exists>fs. filter_loop G M s xs h facc = (h', Inr (facc @ fs))
            \<and> imgs = acc @ map (\<lambda>f. gt_scalar f c) fs \<and> length fs = length xs"
proof (induction xs arbitrary: h acc facc)
  case Nil
  then show ?case by simp
next
  case (Cons stack rest)
  obtain h1 r1 where b: "loop_body G M s l stack h = (h1, r1)"
    by (cases "loop_body G M s l stack h")
  with Cons.prems obtain t where r1: "r1 = Inr t"
    and rest: "stack_loop G M s l rest h1 (acc @ [t]) = (h', Inr imgs)"
    by (cases r1) auto
  from loop_body_threshold [OF b [unfolded r1]] c obtain f
    where f: "filter_body G M s stack h = (h1, Inr f)" and t: "t = gt_scalar f c"
    by auto
  from Cons.IH [OF rest, of "facc @ [f]"] obtain fs
    where "filter_loop G M s rest h1 (facc @ [f]) = (h', Inr ((facc @ [f]) @ fs))"
      and "imgs = (acc @ [t]) @ map (\<lambda>f. gt_scalar f c) fs" and "length fs = length rest"
    by blast
  then have "filter_loop G M s (stack # rest) h facc = (h', Inr (facc @ (f # fs)))
      \<and> imgs = acc @ map (\<lambda>f. gt_scalar f c) (f # fs) \<and> length (f # fs) = length (stack # rest)"
    using f t by simp
  then show ?case by blast
qed

lemma stack_loop_cutoff:
  assumes "stack_loop G M s l (stack # rest) h acc = (h', Inr imgs)"
  shows "\<exists>c. np_quantile (data l) (quantile s) = Inr c"
proof -
  obtain h1 r1 where b: "loop_body G M s l stack h = (h1, r1)"
    by (cases "loop_body G M s l stack h")
  with assms obtain t where "r1 = Inr t" by (cases r1) auto
  with b loop_body_threshold [of G M s l stack h h1 t] show ?thesis by auto
qed

text \<open>
  Claim C8. In a recomputation over a non-empty stack list that returns its images, the
  cutoff is the quantile of the data of the layer passed in, at the quantile received: it
  does not depend on the blurred or median-filtered volumes. Each returned mask is the
  median-filtered volume of its stack compared with that cutoff: a voxel is marked exactly
  when its filtered value is strictly greater.
\<close>

theorem threshold_uses_layer_quantile:
  assumes run: "filter_and_threshold G M s h (Some l) a = (s', h', Inr (Some imgs))"
    and ne: "stacks s \<noteq> []"
  shows "\<exists>c fs. np_quantile (data l) (PyFloat (arg_quantile a)) = Inr c
           \<and> filter_loop G M s' (stacks s) h [] = (h', Inr fs)
           \<and> length fs = length (stacks s)
           \<and> imgs = map (\<lambda>f. gt_scalar f c) fs
           \<and> (\<forall>i<length fs. \<forall>z y x. voxel_at (imgs ! i) z y x \<longleftrightarrow>
                 z < length (fs ! i) \<and> y < length (fs ! i ! z) \<and> x < length (fs ! i ! z ! y)
                 \<and> c < fs ! i ! z ! y ! x)"
proof -
  have s': "s' = store_args s a"
    using run by (auto simp: filter_and_threshold_def Let_def split: prod.splits sum.splits)
  have st: "stacks s' = stacks s" and q: "quantile s' = PyFloat (arg_quantile a)"
    by (simp_all add: s' store_args_def)
  have sl: "stack_loop G M s' l (stacks s) h [] = (h', Inr imgs)"
    using run st unfolding s'
    by (auto simp: filter_and_threshold_def Let_def split: prod.splits sum.splits)
  from ne obtain stack rest where "stacks s = stack # rest" by (cases "stacks s") auto
  with stack_loop_cutoff [of G M s' l stack rest h "[]" h' imgs] sl
  obtain c where c: "np_quantile (data l) (quantile s') = Inr c" by auto
  from stack_loop_threshold [OF c sl, of "[]"] obtain fs
    where fs: "filter_loop G M s' (stacks s) h [] = (h', Inr fs)"
      "imgs = map (\<lambda>f. gt_scalar f c) fs" "length fs = length (stacks s)"
    by auto
  have "\<forall>i<length fs. \<forall>z y x. voxel_at (imgs ! i) z y x \<longleftrightarrow>
                 z < length (fs ! i) \<and> y < length (fs ! i ! z) \<and> x < length (fs ! i ! z ! y)
                 \<and> c < fs ! i ! z ! y ! x"
    by (simp add: fs(2) voxel_at_gt_scalar)
  with c fs show ?thesis unfolding q by blast
qed

theorem threshold_uses_layer_quantile_witness:
  "filter_and_threshold example_gaussian3d example_medFilter2d example_sweeper example_store
        (Some example_layer) example_args =
       (store_args example_sweeper example_args,
        [[[[1, 2], [3, 4]]], [[[2, 4], [6, 8]]], [[[2, 4], [6, 8]]]],
        Inr (Some [[[[False, True], [True, True]]]]))
   \<and> np_quantile (data example_layer) (PyFloat (arg_quantile example_args)) = Inr (5 / 2)
   \<and> filter_loop example_gaussian3d example_medFilter2d (store_args example_sweeper example_args)
        (stacks example_sweeper) example_store [] =
       ([[[[1, 2], [3, 4]]], [[[2, 4], [6, 8]]], [[[2, 4], [6, 8]]]], Inr [[[[2, 4], [6, 8]]]])
   \<and> [[[[False, True], [True, True]]]] = map (\<lambda>f. gt_scalar f (5 / 2)) [[[[2, 4], [6, 8]]]]"
proof -
  have run: "filter_and_threshold example_gaussian3d example_medFilter2d example_sweeper
        example_store (Some example_layer) example_args =
       (store_args example_sweeper example_args,
        [[[[1, 2], [3, 4]]], [[[2, 4], [6, 8]]], [[[2, 4], [6, 8]]]],
        Inr (Some [[[[False, True], [True, True]]]]))"
    by (simp add: example_defs callback_defs)
  have ne: "stacks example_sweeper \<noteq> []"
    by (simp add: example_defs)
  have q: "np_quantile (data example_layer) (PyFloat (arg_quantile example_args)) = Inr (5 / 2)"
    by (simp add: example_layer_def example_args_def np_quantile_def quantile_linear_def)
  have fl: "filter_loop example_gaussian3d example_medFilter2d
          (store_args example_sweeper example_args) (stacks example_sweeper) example_store [] =
         ([[[[1, 2], [3, 4]]], [[[2, 4], [6, 8]]], [[[2, 4], [6, 8]]]], Inr [[[[2, 4], [6, 8]]]])"
    by (simp add: example_defs filter_body_def store_args_def deepcopy_def gaussian_tuple_def
        selected_median_def seq_index_def)
  from threshold_uses_layer_quantile [OF run ne] obtain c fs
    where c: "np_quantile (data example_layer) (PyFloat (arg_quantile example_args)) = Inr c"
      and fs: "filter_loop example_gaussian3d example_medFilter2d
          (store_args example_sweeper example_args) (stacks example_sweeper) example_store [] =
         ([[[[1, 2], [3, 4]]], [[[2, 4], [6, 8]]], [[[2, 4], [6, 8]]]], Inr fs)"
      and m: "[[[[False, True], [True, True]]]] = map (\<lambda>f. gt_scalar f c) fs"
    by (elim exE conjE) (rule that)
  from c have c': "c = 5 / 2" unfolding q by (rule sum.inject(2) [THEN iffD1, symmetric])
  from fs have fs': "fs = [[[[2, 4], [6, 8]]]]" unfolding fl by simp
  from m have "[[[[False, True], [True, True]]]] = map (\<lambda>f. gt_scalar f (5 / 2)) [[[[2, 4], [6, 8]]]]"
    unfolding c' fs' .
  with run q fl show ?thesis by (intro conjI)
qed

section \<open>Parameters outside their domain\<close>

text \<open>
  Claim C2, as the code has it. A call on a layer stores the parameters it receives before
  any filtering and without checking them, and they stay stored when the recomputation
  raises. With a first volume on which the Gaussian step succeeds, a median index outside
  the candidate list ends the recomputation with \<open>IndexError\<close>; with a valid median
  index and a median filter that succeeds, a quantile outside \<open>[0, 1]\<close> ends it with
  \<open>ValueError\<close>. In both cases no image is returned.
\<close>

theorem invalid_parameters_are_stored:
  "fst (filter_and_threshold G M s h (Some l) a) = store_args s a
   \<and> (stacks s = stack # rest \<and> deepcopy h stack = (h1, c)
        \<and> G h1 c (gaussian_tuple (store_args s a)) = (h2, Inr blurred)
        \<and> median_sizes s = PyList sizes
        \<and> (arg_median_index a < - int (length sizes) \<or> int (length sizes) \<le> arg_median_index a)
      \<longrightarrow> filter_and_threshold G M s h (Some l) a = (store_args s a, h2, Inl IndexError))
   \<and> (stacks s = stack # rest \<and> deepcopy h stack = (h1, c)
        \<and> G h1 c (gaussian_tuple (store_args s a)) = (h2, Inr blurred)
        \<and> selected_median (store_args s a) = Inr msize
        \<and> M h2 blurred msize = (h3, Inr filtered)
        \<and> (arg_quantile a < 0 \<or> 1 < arg_quantile a)
      \<longrightarrow> filter_and_threshold G M s h (Some l) a = (store_args s a, h3, Inl ValueError))"
proof (intro conjI impI)
  show "fst (filter_and_threshold G M s h (Some l) a) = store_args s a"
    by (rule fst_filter_and_threshold)
next
  assume a: "stacks s = stack # rest \<and> deepcopy h stack = (h1, c)
        \<and> G h1 c (gaussian_tuple (store_args s a)) = (h2, Inr blurred)
        \<and> median_sizes s = PyList sizes
        \<and> (arg_median_index a < - int (length sizes) \<or> int (length sizes) \<le> arg_median_index a)"
  then have "selected_median (store_args s a) = Inl IndexError"
    by (auto simp: selected_median_def store_args_def seq_index_def)
  moreover have "stacks (store_args s a) = stack # rest"
    using a by (simp add: store_args_def)
  ultimately show "filter_and_threshold G M s h (Some l) a = (store_args s a, h2, Inl IndexError)"
    using a by (simp add: filter_and_threshold_def Let_def loop_body_def)
next
  assume a: "stacks s = stack # rest \<and> deepcopy h stack = (h1, c)
        \<and> G h1 c (gaussian_tuple (store_args s a)) = (h2, Inr blurred)
        \<and> selected_median (store_args s a) = Inr msize
        \<and> M h2 blurred msize = (h3, Inr filtered)
        \<and> (arg_quantile a < 0 \<or> 1 < arg_quantile a)"
  then have "np_quantile (data l) (quantile (store_args s a)) = Inl ValueError"
    by (auto simp: np_quantile_def store_args_def)
  moreover have "stacks (store_args s a) = stack # rest"
    using a by (simp add: store_args_def)
  ultimately show "filter_and_threshold G M s h (Some l) a = (store_args s a, h3, Inl ValueError)"
    using a by (simp add: filter_and_threshold_def Let_def loop_body_def)
qed

theorem invalid_parameters_are_stored_witness:
  "fst (filter_and_threshold example_gaussian3d example_medFilter2d example_sweeper example_store
       (Some example_layer) (example_args\<lparr>arg_median_index := 3\<rparr>))
     = store_args example_sweeper (example_args\<lparr>arg_median_index := 3\<rparr>)
   \<and> filter_and_threshold example_gaussian3d example_medFilter2d example_sweeper example_store
       (Some example_layer) (example_args\<lparr>arg_median_index := 3\<rparr>)
     = (store_args example_sweeper (example_args\<lparr>arg_median_index := 3\<rparr>),
        [[[[1, 2], [3, 4]]], [[[2, 4], [6, 8]]]], Inl IndexError)
   \<and> filter_and_threshold example_gaussian3d example_medFilter2d example_sweeper example_store
       (Some example_layer) (example_args\<lparr>arg_quantile := 3 / 2\<rparr>)
     = (store_args example_sweeper (example_args\<lparr>arg_quantile := 3 / 2\<rparr>),
        [[[[1, 2], [3, 4]]], [[[2, 4], [6, 8]]], [[[2, 4], [6, 8]]]], Inl ValueError)"
proof -
  let ?h1 = "[[[[1, 2], [3, 4]]], [[[1, 2], [3, 4]]]] :: store"
  let ?h2 = "[[[[1, 2], [3, 4]]], [[[2, 4], [6, 8]]]] :: store"
  let ?h3 = "[[[[1, 2], [3, 4]]], [[[2, 4], [6, 8]]], [[[2, 4], [6, 8]]]] :: store"
  let ?a = "example_args\<lparr>arg_median_index := 3\<rparr>"
  let ?b = "example_args\<lparr>arg_quantile := 3 / 2\<rparr>"
  have st: "stacks example_sweeper = 0 # []"
    and dc: "deepcopy example_store 0 = (?h1, 1)"
    and ms: "median_sizes example_sweeper = PyList [PyInt 1, PyInt 3, PyInt 5]"
    by (simp_all add: example_defs deepcopy_def)
  have ga: "example_gaussian3d ?h1 1 (gaussian_tuple (store_args example_sweeper ?a)) = (?h2, Inr 1)"
    and gb: "example_gaussian3d ?h1 1 (gaussian_tuple (store_args example_sweeper ?b)) = (?h2, Inr 1)"
    by (simp_all add: example_gaussian3d_def)
  have ia: "arg_median_index ?a < - int (length [PyInt 1, PyInt 3, PyInt 5])
      \<or> int (length [PyInt 1, PyInt 3, PyInt 5]) \<le> arg_median_index ?a"
    by (simp add: example_args_def)
  have sb: "selected_median (store_args example_sweeper ?b) = Inr (PyInt 3)"
    by (simp add: example_defs store_args_def selected_median_def seq_index_def)
  have mb: "example_medFilter2d ?h2 1 (PyInt 3) = (?h3, Inr 2)"
    by (simp add: example_medFilter2d_def)
  have qb: "arg_quantile ?b < 0 \<or> 1 < arg_quantile ?b"
    by (simp add: example_args_def)
  note t1 = invalid_parameters_are_stored [of example_gaussian3d example_medFilter2d
      example_sweeper example_store example_layer ?a 0 "[]" ?h1 1 ?h2 1
      "[PyInt 1, PyInt 3, PyInt 5]"]
  note t2 = invalid_parameters_are_stored [of example_gaussian3d example_medFilter2d
      example_sweeper example_store example_layer ?b 0 "[]" ?h1 1 ?h2 1 _ "PyInt 3" ?h3 2]
  have c1: "fst (filter_and_threshold example_gaussian3d example_medFilter2d example_sweeper
       example_store (Some example_layer) ?a) = store_args example_sweeper ?a"
    by (rule t1 [THEN conjunct1])
  have c2: "filter_and_threshold example_gaussian3d example_medFilter2d example_sweeper
       example_store (Some example_layer) ?a = (store_args example_sweeper ?a, ?h2, Inl IndexError)"
    by (rule t1 [THEN conjunct2, THEN conjunct1, rule_format]) (intro conjI st dc ga ms ia)
  have c3: "filter_and_threshold example_gaussian3d example_medFilter2d example_sweeper
       example_store (Some example_layer) ?b = (store_args example_sweeper ?b, ?h3, Inl ValueError)"
    by (rule t2 [THEN conjunct2, THEN conjunct2, rule_format]) (intro conjI st dc gb sb mb qb)
  from c1 c2 c3 show ?thesis by (intro conjI)
qed

text \<open>With the median index 3 the recomputation ends with \<open>IndexError\<close>, and the
  parameters of the object are no longer the prior ones.\<close>

theorem invalid_parameter_counterexample:
  "filter_and_threshold example_gaussian3d example_medFilter2d example_sweeper example_store
       (Some example_layer) (example_args\<lparr>arg_median_index := 3\<rparr>)
     = (example_sweeper\<lparr> quantile := PyFloat (1 / 2), median_index := PyInt 3,
          width_x_val := PyInt 5, width_y_val := PyInt 1, width_z_val := PyInt 3,
          sigma_x := PyFloat 1, sigma_y := PyFloat 2, sigma_z := PyFloat (3 / 2) \<rparr>,
        [[[[1, 2], [3, 4]]], [[[2, 4], [6, 8]]]], Inl IndexError)
   \<and> median_index example_sweeper = PyInt 1
   \<and> width_x_val example_sweeper = PyInt 3"
  by (simp add: example_defs callback_defs)


section \<open>The loaded volumes are not touched\<close>

lemma frame_okD:
  assumes "frame_ok F" and "a < length h" and "F h a p = (h', r)"
  shows "length h \<le> length h'"
    and "\<And>b. b < length h \<Longrightarrow> b \<noteq> a \<Longrightarrow> h' ! b = h ! b"
    and "\<And>a'. r = Inr a' \<Longrightarrow> a' < length h' \<and> (a' = a \<or> length h \<le> a')"
proof -
  note k = assms(1) [unfolded frame_ok_def, rule_format, OF assms(2), of p, unfolded assms(3) prod.case]
  show "length h \<le> length h'" using k by (rule conjunct1)
  show "\<And>b. b < length h \<Longrightarrow> b \<noteq> a \<Longrightarrow> h' ! b = h ! b"
    using k [THEN conjunct2, THEN conjunct1] by blast
  show "\<And>a'. r = Inr a' \<Longrightarrow> a' < length h' \<and> (a' = a \<or> length h \<le> a')"
    using k [THEN conjunct2, THEN conjunct2] by simp
qed

lemma loop_body_frame:
  assumes G: "frame_ok G" and M: "frame_ok M"
    and run: "loop_body G M s l stack h = (h', r)"
  shows "length h \<le> length h' \<and> (\<forall>b<length h. h' ! b = h ! b)"
proof -
  obtain h2 rg where g: "G (h @ [h ! stack]) (length h) (gaussian_tuple s) = (h2, rg)"
    by (cases "G (h @ [h ! stack]) (length h) (gaussian_tuple s)")
  have c: "length h < length (h @ [h ! stack])" by simp
  note fg = frame_okD [OF G c g]
  have len2: "length h \<le> length h2" using fg(1) by simp
  have same2: "h2 ! b = h ! b" if "b < length h" for b
    using fg(2) [of b] that by (simp add: nth_append)
  show ?thesis
  proof (cases rg)
    case (Inl er)
    with run g have "h' = h2" by (simp add: loop_body_def deepcopy_def)
    with len2 same2 show ?thesis by simp
  next
    case (Inr blurred)
    from fg(3) [OF Inr] have bl: "blurred < length h2" "length h \<le> blurred" by auto
    show ?thesis
    proof (cases "selected_median s")
      case (Inl er)
      with run g \<open>rg = Inr blurred\<close> have "h' = h2" by (simp add: loop_body_def deepcopy_def)
      with len2 same2 show ?thesis by simp
    next
      case sm: (Inr msize)
      obtain h3 rm where m: "M h2 blurred msize = (h3, rm)"
        by (cases "M h2 blurred msize")
      note fm = frame_okD [OF M bl(1) m]
      from run g \<open>rg = Inr blurred\<close> sm m have "h' = h3"
        by (simp add: loop_body_def deepcopy_def split: sum.splits)
      moreover have "length h \<le> length h3" using len2 fm(1) by simp
      moreover have "h3 ! b = h ! b" if "b < length h" for b
        using fm(2) [of b] that bl(2) len2 same2 [of b] by simp
      ultimately show ?thesis by simp
    qed
  qed
qed

lemma stack_loop_frame:
  assumes G: "frame_ok G" and M: "frame_ok M"
  shows "stack_loop G M s l xs h acc = (h', r)
     \<Longrightarrow> length h \<le> length h' \<and> (\<forall>b<length h. h' ! b = h ! b)"
proof (induction xs arbitrary: h acc)
  case Nil
  then show ?case by simp
next
  case (Cons stack rest)
  obtain h1 r1 where b: "loop_body G M s l stack h = (h1, r1)"
    by (cases "loop_body G M s l stack h")
  note f1 = loop_body_frame [OF G M b]
  show ?case
  proof (cases r1)
    case (Inl er)
    with Cons.prems b have "h' = h1" by simp
    with f1 show ?thesis by simp
  next
    case (Inr t)
    with Cons.prems b have "stack_loop G M s l rest h1 (acc @ [t]) = (h', r)" by simp
    from Cons.IH [OF this] f1 show ?thesis by auto
  qed
qed

lemma filter_and_threshold_frame:
  assumes G: "frame_ok G" and M: "frame_ok M"
    and run: "filter_and_threshold G M s h layer a = (s', h', r)"
  shows "stacks s' = stacks s \<and> length h \<le> length h' \<and> (\<forall>b<length h. h' ! b = h ! b)"
proof (cases layer)
  case None
  with run show ?thesis by (simp add: filter_and_threshold_def)
next
  case (Some l)
  obtain h1 r1 where sl: "stack_loop G M (store_args s a) l (stacks (store_args s a)) h [] = (h1, r1)"
    by (cases "stack_loop G M (store_args s a) l (stacks (store_args s a)) h []")
  with run Some have "s' = store_args s a" and "h' = h1"
    by (auto simp: filter_and_threshold_def Let_def split: sum.splits)
  with stack_loop_frame [OF G M sl] show ?thesis by (simp add: store_args_def)
qed

lemma run_events_frame:
  assumes G: "frame_ok G" and M: "frame_ok M"
  shows "run_events G M s h evs = (s', h')
     \<Longrightarrow> stacks s' = stacks s \<and> length h \<le> length h' \<and> (\<forall>b<length h. h' ! b = h ! b)"
proof (induction evs arbitrary: s h)
  case Nil
  then show ?case by simp
next
  case (Cons ev evs)
  obtain layer a where ev: "ev = (layer, a)" by (cases ev)
  obtain s1 h1 r1 where c: "filter_and_threshold G M s h layer a = (s1, h1, r1)"
    by (cases "filter_and_threshold G M s h layer a")
  with Cons.prems ev have "run_events G M s1 h1 evs = (s', h')" by simp
  from Cons.IH [OF this] filter_and_threshold_frame [OF G M c] show ?case by auto
qed

lemma frame_ok_example_gaussian3d: "frame_ok example_gaussian3d"
  by (simp add: frame_ok_def example_gaussian3d_def)

lemma frame_ok_example_medFilter2d: "frame_ok example_medFilter2d"
  by (simp add: frame_ok_def example_medFilter2d_def nth_append)

text \<open>
  Claim C9. Each pass of the loop hands a deep copy of the volume to the filters. So,
  with filters that write only to the array they are given and to arrays they allocate,
  after any sequence of calls of the callback the stack list of the session is the same
  list of arrays, and every array in it holds what it held before.
\<close>

theorem recomputation_keeps_stacks:
  assumes "frame_ok G" and "frame_ok M"
    and "\<forall>a\<in>set (stacks s). a < length h"
    and "run_events G M s h evs = (s', h')"
  shows "stacks s' = stacks s \<and> (\<forall>a\<in>set (stacks s). h' ! a = h ! a)"
  using run_events_frame [OF assms(1,2,4)] assms(3) by auto

theorem recomputation_keeps_stacks_witness:
  "stacks (fst (run_events example_gaussian3d example_medFilter2d example_sweeper example_store
      example_events)) = [0]
   \<and> snd (run_events example_gaussian3d example_medFilter2d example_sweeper example_store
      example_events) ! 0 = example_volume
   \<and> snd (run_events example_gaussian3d example_medFilter2d example_sweeper example_store
      example_events) ! 1 = [[[2, 4], [6, 8]]]"
proof -
  have st: "stacks example_sweeper = [0]"
    by (simp add: example_defs)
  have ok: "\<forall>a\<in>set (stacks example_sweeper). a < length example_store"
    by (simp add: example_defs)
  have run: "snd (run_events example_gaussian3d example_medFilter2d example_sweeper example_store
      example_events) ! 1 = [[[2, 4], [6, 8]]]"
    by code_simp
  let ?R = "run_events example_gaussian3d example_medFilter2d example_sweeper example_store
      example_events"
  have "stacks (fst ?R) = stacks example_sweeper
      \<and> (\<forall>a\<in>set (stacks example_sweeper). snd ?R ! a = example_store ! a)"
    by (rule recomputation_keeps_stacks [OF frame_ok_example_gaussian3d
          frame_ok_example_medFilter2d ok surjective_pairing])
  then have "stacks (fst ?R) = [0]" and "snd ?R ! 0 = example_store ! 0"
    unfolding st by simp_all
  moreover have "example_store ! 0 = example_volume"
    by (simp add: example_store_def)
  ultimately show ?thesis using run by simp
qed


end
